theory Spec2Isabelle
  imports Main "HOL-Library.AList"
begin

section \<open>Strings and JavaScript values\<close>

text \<open>
  Strings are character lists. The helpers below are the \<^verbatim>\<open>String.prototype\<close> methods
  the SDK calls: \<^verbatim>\<open>startsWith\<close>, \<^verbatim>\<open>includes\<close>, \<^verbatim>\<open>trim\<close> and the global
  \<^verbatim>\<open>parseInt(s, 10)\<close>. White space is the ECMAScript set restricted to one-byte
  characters (TAB, LF, VT, FF, CR, SP, NBSP).
\<close>

fun startsWith :: "string \<Rightarrow> string \<Rightarrow> bool" where
  "startsWith s [] = True"
| "startsWith [] (p # ps) = False"
| "startsWith (c # cs) (p # ps) = (c = p \<and> startsWith cs ps)"

fun str_includes :: "string \<Rightarrow> string \<Rightarrow> bool" where
  "str_includes [] p = (p = [])"
| "str_includes (c # cs) p = (startsWith (c # cs) p \<or> str_includes cs p)"

definition isWhiteSpace :: "char \<Rightarrow> bool" where
  "isWhiteSpace c =
     (c \<in> set [CHR 0x09, CHR 0x0A, CHR 0x0B, CHR 0x0C, CHR 0x0D, CHR 0x20, CHR 0xA0])"

definition trim :: "string \<Rightarrow> string" where
  "trim s = rev (dropWhile isWhiteSpace (rev (dropWhile isWhiteSpace s)))"

definition isDigit :: "char \<Rightarrow> bool" where
  "isDigit c = (c \<in> set ''0123456789'')"

definition digitValue :: "char \<Rightarrow> nat" where
  "digitValue c = of_char c - 48"

definition digitChar :: "nat \<Rightarrow> char" where
  "digitChar d = ''0123456789'' ! d"

text \<open>Decimal rendering of a number, as a template literal \<^verbatim>\<open>`${i + 1}`\<close> produces it.\<close>

fun show_nat :: "nat \<Rightarrow> string" where
  "show_nat n =
     (if n < 10 then [digitChar n] else show_nat (n div 10) @ [digitChar (n mod 10)])"

declare show_nat.simps [simp del]

definition show_int :: "int \<Rightarrow> string" where
  "show_int i = (if i < 0 then CHR ''-'' # show_nat (nat (- i)) else show_nat (nat i))"

text \<open>
  \<^verbatim>\<open>parseInt(s, 10)\<close>: leading white space is skipped, one sign is read, then the longest
  run of decimal digits; no digit at all gives \<^verbatim>\<open>NaN\<close>, here \<open>None\<close>. The value is
  the exact integer (JavaScript rounds to a double beyond \<open>2^53\<close>, which keeps the sign).
\<close>

definition parseInt :: "string \<Rightarrow> int option" where
  "parseInt s =
     (let s1 = dropWhile isWhiteSpace s;
          neg = (s1 \<noteq> [] \<and> hd s1 = CHR ''-'');
          s2 = (if s1 \<noteq> [] \<and> (hd s1 = CHR ''-'' \<or> hd s1 = CHR ''+'') then tl s1 else s1);
          z = takeWhile isDigit s2;
          v = int (foldl (\<lambda>acc c. 10 * acc + digitValue c) 0 z)
      in if z = [] then None else Some (if neg then - v else v))"

text \<open>
  A JavaScript value as \<^verbatim>\<open>JSON.parse\<close> or an object literal produces it. An object is
  an association list from property names to values; \<open>None\<close> of type \<open>json option\<close>
  is \<^verbatim>\<open>undefined\<close>. Numbers are restricted to integers.
\<close>

datatype json =
    JNull
  | JBool bool
  | JNum int
  | JStr string
  | JArr "json list"
  | JObj "(string \<times> json) list"

text \<open>Optional property access \<^verbatim>\<open>v?.k\<close> for a property name no prototype defines.\<close>

fun optGet :: "json option \<Rightarrow> string \<Rightarrow> json option" where
  "optGet (Some (JObj kvs)) k = map_of kvs k"
| "optGet v k = None"

text \<open>Nullish coalescing \<^verbatim>\<open>v ?? d\<close>.\<close>

fun nullish :: "json option \<Rightarrow> json \<Rightarrow> json" where
  "nullish None d = d"
| "nullish (Some JNull) d = d"
| "nullish (Some v) d = v"

text \<open>Truthiness of a value, as \<^verbatim>\<open>!v\<close> and \<^verbatim>\<open>v ? a : b\<close> test it.\<close>

fun truthy :: "json option \<Rightarrow> bool" where
  "truthy None = False"
| "truthy (Some JNull) = False"
| "truthy (Some (JBool b)) = b"
| "truthy (Some (JNum n)) = (n \<noteq> 0)"
| "truthy (Some (JStr s)) = (s \<noteq> [])"
| "truthy (Some v) = True"

text \<open>\<^verbatim>\<open>ToString\<close>, which the \<^verbatim>\<open>Error\<close> constructor applies to its message.\<close>

fun joinWith :: "string \<Rightarrow> string list \<Rightarrow> string" where
  "joinWith sep [] = []"
| "joinWith sep [x] = x"
| "joinWith sep (x # y # ys) = x @ sep @ joinWith sep (y # ys)"

fun toString :: "json \<Rightarrow> string" where
  "toString JNull = ''null''"
| "toString (JBool b) = (if b then ''true'' else ''false'')"
| "toString (JNum n) = show_int n"
| "toString (JStr s) = s"
| "toString (JArr xs) = joinWith '','' (map (\<lambda>x. if x = JNull then [] else toString x) xs)"
| "toString (JObj kvs) = ''[object Object]''"

section \<open>Constants\<close>

text \<open>\<^verbatim>\<open>HTTP_STATUS\<close>, \<^verbatim>\<open>TIMEOUTS\<close> and \<^verbatim>\<open>RETRY\<close> of the constants module.\<close>

definition NO_CONTENT :: nat where "NO_CONTENT = 204"
definition BAD_REQUEST :: nat where "BAD_REQUEST = 400"
definition UNAUTHORIZED :: nat where "UNAUTHORIZED = 401"
definition FORBIDDEN :: nat where "FORBIDDEN = 403"
definition NOT_FOUND :: nat where "NOT_FOUND = 404"
definition UNPROCESSABLE :: nat where "UNPROCESSABLE = 422"
definition RATE_LIMITED :: nat where "RATE_LIMITED = 429"

definition TIMEOUTS_DEFAULT :: nat where "TIMEOUTS_DEFAULT = 30000"

definition MAX_ATTEMPTS :: nat where "MAX_ATTEMPTS = 3"
definition INITIAL_DELAY :: nat where "INITIAL_DELAY = 1000"
definition MAX_DELAY :: nat where "MAX_DELAY = 30000"
definition BACKOFF_FACTOR :: nat where "BACKOFF_FACTOR = 2"
definition RETRYABLE_STATUS :: "nat list" where
  "RETRYABLE_STATUS = [408, 429, 500, 502, 503, 504]"

text \<open>
  The table \<^verbatim>\<open>ERROR_CODES\<close> is declared outside the files at hand; its entries are
  the ones the unit tests of the error classes assert.
\<close>

definition AUTHENTICATION_FAILED :: string where "AUTHENTICATION_FAILED = ''AUTH_FAILED''"
definition AUTHORIZATION_FAILED :: string where "AUTHORIZATION_FAILED = ''FORBIDDEN''"
definition NOT_FOUND_CODE :: string where "NOT_FOUND_CODE = ''NOT_FOUND''"
definition VALIDATION_ERROR :: string where "VALIDATION_ERROR = ''VALIDATION_ERROR''"
definition RATE_LIMIT_EXCEEDED :: string where "RATE_LIMIT_EXCEEDED = ''RATE_LIMIT''"
definition NETWORK_ERROR :: string where "NETWORK_ERROR = ''NETWORK_ERROR''"
definition TIMEOUT :: string where "TIMEOUT = ''TIMEOUT''"
definition INVALID_CONFIG :: string where "INVALID_CONFIG = ''INVALID_CONFIG''"

section \<open>Error taxonomy\<close>

text \<open>
  One record for \<^verbatim>\<open>NeuranaError\<close> and its subclasses: \<open>name\<close> is the class name each
  constructor assigns, \<open>retryAfter\<close> is the extra field of \<^verbatim>\<open>RateLimitError\<close>. The
  message is a string because \<^verbatim>\<open>Error\<close> converts it; the code is stored as passed.
\<close>

record neurana_error =
  name :: string
  message :: string
  code :: json
  statusCode :: "nat option"
  details :: "json option"
  retryAfter :: "int option"

definition NeuranaError :: "json \<Rightarrow> json \<Rightarrow> nat option \<Rightarrow> json option \<Rightarrow> neurana_error" where
  "NeuranaError msg c st d =
     \<lparr>name = ''NeuranaError'', message = toString msg, code = c, statusCode = st,
      details = d, retryAfter = None\<rparr>"

definition AuthenticationError :: "json \<Rightarrow> neurana_error" where
  "AuthenticationError msg =
     (NeuranaError msg (JStr AUTHENTICATION_FAILED) (Some 401) None)
       \<lparr>name := ''AuthenticationError''\<rparr>"

definition AuthorizationError :: "json \<Rightarrow> neurana_error" where
  "AuthorizationError msg =
     (NeuranaError msg (JStr AUTHORIZATION_FAILED) (Some 403) None)
       \<lparr>name := ''AuthorizationError''\<rparr>"

definition NotFoundError :: "json \<Rightarrow> neurana_error" where
  "NotFoundError msg =
     (NeuranaError msg (JStr NOT_FOUND_CODE) (Some 404) None)\<lparr>name := ''NotFoundError''\<rparr>"

definition ValidationError :: "json \<Rightarrow> json option \<Rightarrow> neurana_error" where
  "ValidationError msg d =
     (NeuranaError msg (JStr VALIDATION_ERROR) (Some 422) d)\<lparr>name := ''ValidationError''\<rparr>"

definition RateLimitError :: "int \<Rightarrow> json \<Rightarrow> neurana_error" where
  "RateLimitError ra msg =
     (NeuranaError msg (JStr RATE_LIMIT_EXCEEDED) (Some 429)
        (Some (JObj [(''retryAfter'', JNum ra)])))
       \<lparr>name := ''RateLimitError'', retryAfter := Some ra\<rparr>"

definition NetworkError :: "json \<Rightarrow> neurana_error" where
  "NetworkError msg =
     (NeuranaError msg (JStr NETWORK_ERROR) None None)\<lparr>name := ''NetworkError''\<rparr>"

definition TimeoutError :: "json \<Rightarrow> neurana_error" where
  "TimeoutError msg =
     (NeuranaError msg (JStr TIMEOUT) (Some 408) None)\<lparr>name := ''TimeoutError''\<rparr>"

definition ConfigurationError :: "json \<Rightarrow> neurana_error" where
  "ConfigurationError msg =
     (NeuranaError msg (JStr INVALID_CONFIG) None None)\<lparr>name := ''ConfigurationError''\<rparr>"

text \<open>
  What a \<^verbatim>\<open>throw\<close> or a rejected promise carries: a \<^verbatim>\<open>NeuranaError\<close>, another
  \<^verbatim>\<open>Error\<close> instance with its name and message (a \<^verbatim>\<open>TypeError\<close> of \<^verbatim>\<open>fetch\<close>, the
  \<^verbatim>\<open>AbortError\<close> of an aborted signal), or a value that is no \<^verbatim>\<open>Error\<close> at all.
\<close>

datatype thrown =
    ThrownNeurana neurana_error
  | ThrownError string string
  | ThrownOther

section \<open>Response interpreter\<close>

text \<open>
  A response: the status, the two headers the client reads, and the body as the two
  readers deliver it. \<^verbatim>\<open>response.text()\<close> resolves to the text or rejects with a thrown
  value (a body stream that breaks off); \<^verbatim>\<open>response.json()\<close> resolves to the decoded
  value, and is \<open>None\<close> when it rejects.
\<close>

record response =
  status :: nat
  content_type :: "string option"
  retry_after :: "string option"
  body_text :: "thrown + string"
  body_json :: "json option"

text \<open>A response that has only a status: no header, an empty body.\<close>

definition bare :: "nat \<Rightarrow> response" where
  "bare st =
     \<lparr>status = st, content_type = None, retry_after = None, body_text = Inr [],
      body_json = None\<rparr>"

definition ok :: "response \<Rightarrow> bool" where
  "ok r = (200 \<le> status r \<and> status r \<le> 299)"

text \<open>What a call resolves to: nothing (\<^verbatim>\<open>undefined\<close>), raw text, or a decoded value.\<close>

datatype result_value = Undefined | Text string | Decoded json

definition createHttpError :: "response \<Rightarrow> json option \<Rightarrow> neurana_error" where
  "createHttpError r errorData =
     (let st = status r;
          c = nullish (optGet (optGet errorData ''error'') ''code'') (JStr ''UNKNOWN_ERROR'');
          msg = nullish (optGet (optGet errorData ''error'') ''message'')
                  (JStr ''An unexpected error occurred'');
          d = optGet (optGet errorData ''error'') ''details''
      in if st = UNAUTHORIZED then AuthenticationError msg
         else if st = FORBIDDEN then AuthorizationError msg
         else if st = NOT_FOUND then NotFoundError msg
         else if st = UNPROCESSABLE \<or> st = BAD_REQUEST then ValidationError msg d
         else if st = RATE_LIMITED then
           (let ra = (case retry_after r of
                        None \<Rightarrow> Some 60
                      | Some h \<Rightarrow> if h = [] then Some 60 else parseInt h)
            in RateLimitError (case ra of None \<Rightarrow> 60 | Some n \<Rightarrow> n) msg)
         else NeuranaError msg c (Some st) d)"

definition isJson :: "response \<Rightarrow> bool" where
  "isJson r = (case content_type r of None \<Rightarrow> False | Some ct \<Rightarrow> str_includes ct ''application/json'')"

text \<open>
  \<^verbatim>\<open>handleResponse\<close>. On the error path \<open>errorBody\<close> is the value of \<^verbatim>\<open>errorData\<close>:
  it stays \<^verbatim>\<open>null\<close> when the content type is not JSON or the body does not parse (the
  debug log line written there is not modelled). Both calls of \<^verbatim>\<open>response.json()\<close> sit
  in a \<^verbatim>\<open>try\<close>; the call of \<^verbatim>\<open>response.text()\<close> does not, so what it rejects with is
  what \<^verbatim>\<open>handleResponse\<close> rejects with.
\<close>

definition errorBody :: "response \<Rightarrow> json option" where
  "errorBody r =
     (if isJson r then (case body_json r of None \<Rightarrow> Some JNull | Some v \<Rightarrow> Some v)
      else Some JNull)"

definition handleResponse :: "response \<Rightarrow> thrown + result_value" where
  "handleResponse r =
     (if status r = NO_CONTENT then Inr Undefined
      else if \<not> ok r then Inl (ThrownNeurana (createHttpError r (errorBody r)))
      else if \<not> isJson r then
        (case body_text r of Inl err \<Rightarrow> Inl err | Inr t \<Rightarrow> Inr (Text t))
      else (case body_json r of
              Some v \<Rightarrow> Inr (Decoded v)
            | None \<Rightarrow>
                Inl (ThrownNeurana
                  (NeuranaError (JStr ''Failed to parse response'') (JStr ''PARSE_ERROR'')
                     (Some (status r)) None))))"

text \<open>
  \<^verbatim>\<open>handleError\<close>. The first argument is the table \<^verbatim>\<open>ERROR_MESSAGES\<close>, declared outside
  the files at hand: \<^verbatim>\<open>new TimeoutError()\<close> takes its default message from it, and an
  entry that is not there leaves the message empty. (The debug log line of the network
  branch is not modelled.)
\<close>

type_synonym messages = "(string \<times> string) list"

definition defaultMessage :: "messages \<Rightarrow> string \<Rightarrow> json" where
  "defaultMessage em c = (case map_of em c of None \<Rightarrow> JStr [] | Some m \<Rightarrow> JStr m)"

definition handleError :: "messages \<Rightarrow> thrown \<Rightarrow> neurana_error" where
  "handleError em error =
     (case error of
        ThrownNeurana e \<Rightarrow> e
      | ThrownError nm msg \<Rightarrow>
          if nm = ''AbortError'' then TimeoutError (defaultMessage em TIMEOUT)
          else if str_includes msg ''fetch'' \<or> str_includes msg ''network''
               then NetworkError (JStr ''Failed to connect to server'')
          else NeuranaError (JStr ''An unexpected error occurred'') (JStr ''UNKNOWN_ERROR'')
                 None None
      | ThrownOther \<Rightarrow>
          NeuranaError (JStr ''An unexpected error occurred'') (JStr ''UNKNOWN_ERROR'')
            None None)"

section \<open>Retry policy\<close>

definition shouldRetry :: "nat \<Rightarrow> nat \<Rightarrow> bool" where
  "shouldRetry st attempt = (attempt < MAX_ATTEMPTS \<and> st \<in> set RETRYABLE_STATUS)"

definition isRetryableError :: "thrown \<Rightarrow> bool" where
  "isRetryableError error =
     (case error of
        ThrownNeurana e \<Rightarrow> name e = ''TypeError'' \<or> str_includes (message e) ''network''
      | ThrownError nm msg \<Rightarrow> nm = ''TypeError'' \<or> str_includes msg ''network''
      | ThrownOther \<Rightarrow> False)"

text \<open>
  \<^verbatim>\<open>calculateDelay\<close>, for the attempt numbers the executor uses (from 1 upwards, where
  \<^verbatim>\<open>Math.pow\<close> is exact).
\<close>

definition calculateDelay :: "nat \<Rightarrow> nat" where
  "calculateDelay attempt = min (INITIAL_DELAY * BACKOFF_FACTOR ^ (attempt - 1)) MAX_DELAY"

section \<open>Request executor\<close>

text \<open>
  The network is a script: attempt \<open>n\<close> of an operation takes \<open>fst (net n)\<close> milliseconds
  and then resolves to a response or rejects with a thrown value, \<open>snd (net n)\<close>. Time is a
  millisecond clock that starts at 0 when \<^verbatim>\<open>request\<close> is entered. An abort signal either
  never fires or fires at a given clock value; \<^verbatim>\<open>fetch\<close> with a signal that fires before
  the response is there rejects with the platform's \<^verbatim>\<open>AbortError\<close>.
\<close>

type_synonym network = "nat \<Rightarrow> nat \<times> (thrown + response)"

datatype abort_signal = NeverAborts | AbortsAt nat

definition abort_error :: thrown where
  "abort_error = ThrownError ''AbortError'' ''This operation was aborted''"

definition fetch :: "network \<Rightarrow> abort_signal \<Rightarrow> nat \<Rightarrow> nat \<Rightarrow> nat \<times> (thrown + response)" where
  "fetch net sig attempt now =
     (case sig of
        NeverAborts \<Rightarrow> (now + fst (net attempt), snd (net attempt))
      | AbortsAt t \<Rightarrow>
          if now + fst (net attempt) < t then (now + fst (net attempt), snd (net attempt))
          else (max now t, Inl abort_error))"

text \<open>
  A network given by a finite script: the attempts are answered as listed, and an attempt
  beyond the list fails to connect at once.
\<close>

definition script :: "(nat \<times> (thrown + response)) list \<Rightarrow> network" where
  "script xs n =
     (if 1 \<le> n \<and> n \<le> length xs then xs ! (n - 1)
      else (0, Inl (ThrownError ''TypeError'' ''fetch failed'')))"

text \<open>
  The effects of one operation, in order: arming and clearing the deadline timer, each
  transport attempt (attempt number, clock value at its start) and each backoff sleep.
\<close>

datatype event = SetTimeout nat | ClearTimeout | Fetch nat nat | Sleep nat


fun is_timer :: "event \<Rightarrow> bool" where
  "is_timer (SetTimeout t) = True"
| "is_timer ClearTimeout = True"
| "is_timer ev = False"

fun after :: "'e list \<Rightarrow> 'e list \<times> 'a \<Rightarrow> 'e list \<times> 'a" where
  "after pre (evs, x) = (pre @ evs, x)"

text \<open>
  \<^verbatim>\<open>executeWithRetry\<close>: the result is the event trace, the clock value at the end and the
  response or thrown value. The recursive call is returned without \<^verbatim>\<open>await\<close>, so a
  rejection of a later attempt is not seen by the \<^verbatim>\<open>catch\<close> of an earlier one: it is
  passed on as it is.
\<close>

function executeWithRetry ::
  "network \<Rightarrow> abort_signal \<Rightarrow> nat \<Rightarrow> nat \<Rightarrow> event list \<times> nat \<times> (thrown + response)" where
  "executeWithRetry net sig attempt now =
     (case snd (fetch net sig attempt now) of
        Inr resp \<Rightarrow>
          if shouldRetry (status resp) attempt then
            after [Fetch attempt now, Sleep (calculateDelay attempt)]
              (executeWithRetry net sig (attempt + 1)
                 (fst (fetch net sig attempt now) + calculateDelay attempt))
          else ([Fetch attempt now], fst (fetch net sig attempt now), Inr resp)
      | Inl error \<Rightarrow>
          if isRetryableError error \<and> attempt < MAX_ATTEMPTS then
            after [Fetch attempt now, Sleep (calculateDelay attempt)]
              (executeWithRetry net sig (attempt + 1)
                 (fst (fetch net sig attempt now) + calculateDelay attempt))
          else ([Fetch attempt now], fst (fetch net sig attempt now), Inl error))"
  by pat_completeness auto
termination
  by (relation "measure (\<lambda>(net, sig, attempt, now). MAX_ATTEMPTS - attempt)")
     (auto simp: shouldRetry_def)

declare executeWithRetry.simps [simp del]

text \<open>
  \<^verbatim>\<open>RequestConfig\<close>, reduced to the two fields that steer the executor. URL, headers and
  body are the same on every attempt and are part of what the network script answers to.
\<close>

record request_config =
  rc_timeout :: "nat option"
  rc_signal :: "abort_signal option"

text \<open>
  \<^verbatim>\<open>request\<close>: the timer is armed once, before the first attempt; it aborts the client's
  own controller, whose signal is passed to \<^verbatim>\<open>fetch\<close> unless the configuration brings a
  signal of its own. The \<^verbatim>\<open>finally\<close> block clears the timer on both paths. The second
  argument is the client's \<^verbatim>\<open>#timeout\<close>. The result of \<^verbatim>\<open>handleResponse\<close> is returned
  as it is, since it is returned without \<^verbatim>\<open>await\<close>: a rejection of it does not pass
  the \<^verbatim>\<open>catch\<close>. What \<^verbatim>\<open>executeWithRetry\<close> throws goes through \<^verbatim>\<open>handleError\<close>. This
  is the method from the arming of the timer on; its first statement, which builds the
  URL, is added in \<open>send_request\<close> below.
\<close>

definition request_timeout :: "nat \<Rightarrow> request_config \<Rightarrow> nat" where
  "request_timeout client_timeout config =
     (case rc_timeout config of Some t \<Rightarrow> t | None \<Rightarrow> client_timeout)"

definition request_signal :: "nat \<Rightarrow> request_config \<Rightarrow> abort_signal" where
  "request_signal client_timeout config =
     (case rc_signal config of
        Some s \<Rightarrow> s
      | None \<Rightarrow> AbortsAt (request_timeout client_timeout config))"

definition request ::
  "messages \<Rightarrow> nat \<Rightarrow> request_config \<Rightarrow> network
     \<Rightarrow> event list \<times> (thrown + result_value)" where
  "request em client_timeout config net =
     (let timeout = request_timeout client_timeout config;
          sig = request_signal client_timeout config;
          run = executeWithRetry net sig 1 0
      in ([SetTimeout timeout] @ fst run @ [ClearTimeout],
          (case snd (snd run) of
             Inr resp \<Rightarrow> handleResponse resp
           | Inl error \<Rightarrow> Inl (ThrownNeurana (handleError em error)))))"

text \<open>
  The public methods \<^verbatim>\<open>get\<close>, \<^verbatim>\<open>post\<close>, \<^verbatim>\<open>patch\<close>, \<^verbatim>\<open>put\<close> and \<^verbatim>\<open>delete\<close> all
  call \<^verbatim>\<open>request\<close> with neither a timeout nor a signal of their own; the client's timeout
  is the configured one or \<^verbatim>\<open>TIMEOUTS.DEFAULT\<close>.
\<close>

definition client_timeout_of :: "nat option \<Rightarrow> nat" where
  "client_timeout_of t = (case t of Some n \<Rightarrow> n | None \<Rightarrow> TIMEOUTS_DEFAULT)"

definition http_call ::
  "messages \<Rightarrow> nat option \<Rightarrow> network \<Rightarrow> event list \<times> (thrown + result_value)" where
  "http_call em configured net =
     request em (client_timeout_of configured) \<lparr>rc_timeout = None, rc_signal = None\<rparr> net"

section \<open>Step orchestrator\<close>

text \<open>
  A step of a workflow request (\<^verbatim>\<open>CreateStepInput\<close>). The configuration is an object
  whose shape depends on the type; for a code step it holds \<open>runtime\<close>, \<open>code\<close> and
  optionally \<open>fileName\<close> and further keys.
\<close>

record step =
  step_type :: string
  step_name :: "json option"
  step_config :: "(string \<times> json) list"
  step_next :: "json option"
  step_condition :: "json option"

text \<open>
  \<^verbatim>\<open>CreateWorkflowRequest\<close> and \<^verbatim>\<open>UpdateWorkflowRequest\<close>; a field that is \<open>None\<close> is
  not there. The same record is the payload of the workflow request.
\<close>

record workflow_request =
  wf_name :: "string option"
  wf_description :: "string option"
  wf_steps :: "step list option"
  wf_visibility :: "string option"

text \<open>The part of a \<^verbatim>\<open>Workflow\<close> answer that \<^verbatim>\<open>enrichWorkflowResponse\<close> reads and writes.\<close>

record workflow =
  tenantId :: string
  workflowKey :: string
  workflowUrl :: "string option"

text \<open>
  The upload collaborator \<^verbatim>\<open>(fileName, content, language) => Promise<{ key }>\<close>: it
  resolves to a key or rejects. The HTTP client behind \<^verbatim>\<open>post\<close> and \<^verbatim>\<open>patch\<close> is a
  function of path and payload.
\<close>

type_synonym uploader = "json \<Rightarrow> string \<Rightarrow> string \<Rightarrow> thrown + string"

type_synonym workflow_http = "string \<Rightarrow> workflow_request \<Rightarrow> thrown + workflow"

text \<open>
  The calls that leave the orchestrator, in order: an upload (with the index of the step
  it is for) and the workflow request itself.
\<close>

datatype io =
    Upload nat json string string
  | HttpPost string workflow_request
  | HttpPatch string workflow_request

fun is_upload :: "io \<Rightarrow> bool" where
  "is_upload (Upload i f c l) = True"
| "is_upload ev = False"

fun upload_index :: "io \<Rightarrow> nat option" where
  "upload_index (Upload i f c l) = Some i"
| "upload_index ev = None"

definition quoted :: "string \<Rightarrow> string" where
  "quoted s = CHR 0x27 # s @ [CHR 0x27]"

definition stepError :: "nat \<Rightarrow> string \<Rightarrow> thrown" where
  "stepError i reason =
     ThrownNeurana (ValidationError (JStr (''Step '' @ show_nat (i + 1) @ '': '' @ reason)) None)"

text \<open>
  The body of the loop of \<^verbatim>\<open>processSteps\<close> for the step at index \<open>i\<close>: the events it
  causes and the processed step, or what it throws. A \<open>code\<close> value that is neither
  missing nor a string has no \<^verbatim>\<open>trim\<close> method, which is a \<^verbatim>\<open>TypeError\<close>.
\<close>

definition processStep :: "uploader \<Rightarrow> nat \<Rightarrow> step \<Rightarrow> io list \<times> (thrown + step)" where
  "processStep up i s =
     (if step_type s = ''code'' then
        (let codeConfig = step_config s;
             runtime = map_of codeConfig ''runtime''
         in if \<not> truthy runtime then
              ([], Inl (stepError i ''runtime is required for code steps (python or node)''))
            else if runtime \<noteq> Some (JStr ''python'') \<and> runtime \<noteq> Some (JStr ''node'') then
              ([], Inl (stepError i
                 (''runtime must be '' @ quoted ''python'' @ '' or '' @ quoted ''node'')))
            else
              (case map_of codeConfig ''code'' of
                 None \<Rightarrow> ([], Inl (stepError i ''code content is required for code steps''))
               | Some JNull \<Rightarrow>
                   ([], Inl (stepError i ''code content is required for code steps''))
               | Some (JStr src) \<Rightarrow>
                   if trim src = [] then
                     ([], Inl (stepError i ''code content is required for code steps''))
                   else
                     (let extension =
                            (if runtime = Some (JStr ''python'') then ''py'' else ''js'');
                          fileName = nullish (map_of codeConfig ''fileName'')
                            (JStr (''step_'' @ show_nat (i + 1) @ ''.'' @ extension));
                          language =
                            (if runtime = Some (JStr ''python'') then ''python''
                             else ''javascript'')
                      in (case up fileName src language of
                            Inl err \<Rightarrow> ([Upload i fileName src language], Inl err)
                          | Inr key \<Rightarrow>
                              ([Upload i fileName src language],
                               Inr \<lparr>step_type = step_type s, step_name = step_name s,
                                    step_config =
                                      AList.update ''fileId'' (JStr key)
                                        (AList.delete ''fileName''
                                           (AList.delete ''code'' codeConfig)),
                                    step_next = step_next s,
                                    step_condition = step_condition s\<rparr>)))
               | Some other \<Rightarrow>
                   ([], Inl (ThrownError ''TypeError''
                               ''codeConfig.code?.trim is not a function''))))
      else
        ([], Inr \<lparr>step_type = step_type s, step_name = step_name s,
                  step_config = step_config s, step_next = step_next s,
                  step_condition = step_condition s\<rparr>))"

text \<open>
  \<^verbatim>\<open>processSteps\<close>: the loop, one step after the other from index \<open>i\<close> on; a throw
  ends it.
\<close>

fun processStepsFrom ::
  "uploader \<Rightarrow> nat \<Rightarrow> step list \<Rightarrow> io list \<times> (thrown + step list)" where
  "processStepsFrom up i [] = ([], Inr [])"
| "processStepsFrom up i (s # ss) =
     (case snd (processStep up i s) of
        Inl err \<Rightarrow> (fst (processStep up i s), Inl err)
      | Inr s' \<Rightarrow>
          (case snd (processStepsFrom up (i + 1) ss) of
             Inl err \<Rightarrow>
               (fst (processStep up i s) @ fst (processStepsFrom up (i + 1) ss), Inl err)
           | Inr ss' \<Rightarrow>
               (fst (processStep up i s) @ fst (processStepsFrom up (i + 1) ss),
                Inr (s' # ss'))))"

definition processSteps :: "uploader \<Rightarrow> step list \<Rightarrow> io list \<times> (thrown + step list)" where
  "processSteps up steps = processStepsFrom up 0 steps"

definition stripTrailingSlash :: "string \<Rightarrow> string" where
  "stripTrailingSlash s = (if s \<noteq> [] \<and> last s = CHR ''/'' then butlast s else s)"

definition buildWorkflowUrl :: "string option \<Rightarrow> string \<Rightarrow> string \<Rightarrow> string option" where
  "buildWorkflowUrl sdkBaseUrl tid wkey =
     (case sdkBaseUrl of
        None \<Rightarrow> None
      | Some b \<Rightarrow>
          if b = [] then None
          else Some (stripTrailingSlash b @ ''/sdk/'' @ tid @ ''/'' @ wkey))"

definition enrichWorkflowResponse :: "string option \<Rightarrow> workflow \<Rightarrow> workflow" where
  "enrichWorkflowResponse sdkBaseUrl w =
     (if tenantId w \<noteq> [] \<and> workflowKey w \<noteq> [] then
        (case buildWorkflowUrl sdkBaseUrl (tenantId w) (workflowKey w) of
           Some u \<Rightarrow> (if u \<noteq> [] then w\<lparr>workflowUrl := Some u\<rparr> else w)
         | None \<Rightarrow> w)
      else w)"

definition isBlank :: "string option \<Rightarrow> bool" where
  "isBlank s = (case s of None \<Rightarrow> True | Some t \<Rightarrow> trim t = [])"

text \<open>\<^verbatim>\<open>WorkflowsResource.create\<close>.\<close>

definition create ::
  "workflow_http \<Rightarrow> uploader \<Rightarrow> string option \<Rightarrow> workflow_request
     \<Rightarrow> io list \<times> (thrown + workflow)" where
  "create post up sdkBaseUrl data =
     (if isBlank (wf_name data) then
        ([], Inl (ThrownNeurana (ValidationError (JStr ''name is required'') None)))
      else
        (case wf_steps data of
           None \<Rightarrow>
             ([], Inl (ThrownNeurana
                    (ValidationError (JStr ''At least one step is required'') None)))
         | Some steps \<Rightarrow>
             if steps = [] then
               ([], Inl (ThrownNeurana
                      (ValidationError (JStr ''At least one step is required'') None)))
             else
               (case snd (processSteps up steps) of
                  Inl err \<Rightarrow> (fst (processSteps up steps), Inl err)
                | Inr processedSteps \<Rightarrow>
                    (fst (processSteps up steps)
                       @ [HttpPost ''/workflows'' (data\<lparr>wf_steps := Some processedSteps\<rparr>)],
                     (case post ''/workflows'' (data\<lparr>wf_steps := Some processedSteps\<rparr>) of
                        Inl err \<Rightarrow> Inl err
                      | Inr w \<Rightarrow> Inr (enrichWorkflowResponse sdkBaseUrl w))))))"

text \<open>\<^verbatim>\<open>validateId\<close> with its pattern \<^verbatim>\<open>/^[a-zA-Z0-9_-]+$/\<close> and \<^verbatim>\<open>MAX_ID_LENGTH\<close>.\<close>

definition MAX_ID_LENGTH :: nat where "MAX_ID_LENGTH = 64"

definition ID_PATTERN :: "string \<Rightarrow> bool" where
  "ID_PATTERN s =
     (s \<noteq> [] \<and> list_all (\<lambda>c. c \<in> set
        ''abcdefghijklmnopqrstuvwxyzABCDEFGHIJKLMNOPQRSTUVWXYZ0123456789_-'') s)"

definition validateId :: "string \<Rightarrow> string \<Rightarrow> thrown option" where
  "validateId ident field =
     (if ident = [] then
        Some (ThrownNeurana (ValidationError (JStr (field @ '' is required'')) None))
      else if length ident > MAX_ID_LENGTH \<or> \<not> ID_PATTERN ident then
        Some (ThrownNeurana
                (ValidationError (JStr (''Invalid '' @ field @ '' format'')) None))
      else None)"

definition noKeys :: "workflow_request \<Rightarrow> bool" where
  "noKeys data =
     (wf_name data = None \<and> wf_description data = None \<and> wf_steps data = None
      \<and> wf_visibility data = None)"

text \<open>\<^verbatim>\<open>WorkflowsResource.update\<close>.\<close>

definition update ::
  "workflow_http \<Rightarrow> uploader \<Rightarrow> string option \<Rightarrow> string \<Rightarrow> workflow_request
     \<Rightarrow> io list \<times> (thrown + workflow)" where
  "update patch up sdkBaseUrl ident data =
     (case validateId ident ''id'' of
        Some err \<Rightarrow> ([], Inl err)
      | None \<Rightarrow>
          if noKeys data then
            ([], Inl (ThrownNeurana
                   (ValidationError (JStr ''Update data is required'') None)))
          else
            (case wf_steps data of
               None \<Rightarrow>
                 ([HttpPatch (''/workflows/'' @ ident) data],
                  (case patch (''/workflows/'' @ ident) data of
                     Inl err \<Rightarrow> Inl err
                   | Inr w \<Rightarrow> Inr (enrichWorkflowResponse sdkBaseUrl w)))
             | Some steps \<Rightarrow>
                 if steps = [] then
                   ([HttpPatch (''/workflows/'' @ ident) data],
                    (case patch (''/workflows/'' @ ident) data of
                       Inl err \<Rightarrow> Inl err
                     | Inr w \<Rightarrow> Inr (enrichWorkflowResponse sdkBaseUrl w)))
                 else
                   (case snd (processSteps up steps) of
                      Inl err \<Rightarrow> (fst (processSteps up steps), Inl err)
                    | Inr processedSteps \<Rightarrow>
                        (fst (processSteps up steps)
                           @ [HttpPatch (''/workflows/'' @ ident)
                                (data\<lparr>wf_steps := Some processedSteps\<rparr>)],
                         (case patch (''/workflows/'' @ ident)
                                 (data\<lparr>wf_steps := Some processedSteps\<rparr>) of
                            Inl err \<Rightarrow> Inl err
                          | Inr w \<Rightarrow> Inr (enrichWorkflowResponse sdkBaseUrl w))))))"

text \<open>
  Sample data in the style of the unit tests: a code step and a step of another type
  with a given configuration, an uploader that stores every file under one key, and a
  workflow endpoint that answers every request with the same workflow.
\<close>

definition code_step :: "(string \<times> json) list \<Rightarrow> step" where
  "code_step cfg =
     \<lparr>step_type = ''code'', step_name = None, step_config = cfg, step_next = None,
      step_condition = None\<rparr>"

definition plain_step :: "string \<Rightarrow> (string \<times> json) list \<Rightarrow> step" where
  "plain_step ty cfg =
     \<lparr>step_type = ty, step_name = None, step_config = cfg, step_next = None,
      step_condition = None\<rparr>"

definition sample_uploader :: uploader where
  "sample_uploader f c l = Inr ''code-file-uuid-123''"

definition sample_http :: workflow_http where
  "sample_http p d = Inr \<lparr>tenantId = ''tenant'', workflowKey = ''wf'', workflowUrl = None\<rparr>"

definition named_request :: "step list \<Rightarrow> workflow_request" where
  "named_request steps =
     \<lparr>wf_name = Some ''Test Workflow'', wf_description = None, wf_steps = Some steps,
      wf_visibility = None\<rparr>"

section \<open>Client construction\<close>

text \<open>
  \<^verbatim>\<open>NeuranaConfig\<close>. The API key is whatever value the caller passes. The record
  \<open>validation\<close> stands for the table \<^verbatim>\<open>VALIDATION\<close> of the constants module, which is
  declared outside the files at hand.
\<close>

record neurana_config =
  apiKey :: "json option"
  baseUrl :: "string option"
  mainApiUrl :: "string option"
  sdkBaseUrl :: "string option"
  timeout :: "nat option"
  allowInsecureHttp :: "bool option"

record validation =
  MIN_API_KEY_LENGTH :: nat
  MAX_API_KEY_LENGTH :: nat
  API_KEY_PATTERN :: "string \<Rightarrow> bool"

text \<open>A call of \<^verbatim>\<open>logger.warn\<close>: the message and the URL up to its query string.\<close>

datatype log = Warn string string

text \<open>\<^verbatim>\<open>validateEndpointSecurity\<close>: the warnings logged and the error thrown, if any.\<close>

definition validateEndpointSecurity ::
  "string option \<Rightarrow> bool option \<Rightarrow> log list \<times> neurana_error option" where
  "validateEndpointSecurity url allowInsecure =
     (case url of
        None \<Rightarrow> ([], None)
      | Some u \<Rightarrow>
          if u = [] then ([], None)
          else
            (let isSecure = startsWith u ''https://'';
                 isLocalhost = (str_includes u ''localhost'' \<or> str_includes u ''127.0.0.1'')
             in if \<not> isSecure \<and> \<not> isLocalhost then
                  (if allowInsecure = Some True then
                     ([Warn ''Using insecure HTTP connection''
                         (takeWhile (\<lambda>c. c \<noteq> CHR ''?'') u)], None)
                   else
                     ([], Some (ConfigurationError
                                  (JStr ''HTTPS is required for non-localhost endpoints''))))
                else ([], None)))"

fun validateEndpoints ::
  "string option list \<Rightarrow> bool option \<Rightarrow> log list \<times> neurana_error option" where
  "validateEndpoints [] allowInsecure = ([], None)"
| "validateEndpoints (u # us) allowInsecure =
     (case snd (validateEndpointSecurity u allowInsecure) of
        Some err \<Rightarrow> (fst (validateEndpointSecurity u allowInsecure), Some err)
      | None \<Rightarrow>
          (fst (validateEndpointSecurity u allowInsecure)
             @ fst (validateEndpoints us allowInsecure),
           snd (validateEndpoints us allowInsecure)))"

text \<open>
  \<^verbatim>\<open>validateConfig\<close>: the checks of the API key, then the three endpoints in the order
  \<open>baseUrl\<close>, \<open>mainApiUrl\<close>, \<open>sdkBaseUrl\<close>. The constructor throws exactly when
  \<^verbatim>\<open>validateConfig\<close> does.
\<close>

definition validateConfig ::
  "validation \<Rightarrow> neurana_config \<Rightarrow> log list \<times> neurana_error option" where
  "validateConfig V config =
     (if \<not> truthy (apiKey config) then
        ([], Some (ConfigurationError (JStr ''API key is required'')))
      else
        (case apiKey config of
           Some (JStr k) \<Rightarrow>
             if length (trim k) < MIN_API_KEY_LENGTH V then
               ([], Some (ConfigurationError (JStr ''Invalid API key format'')))
             else if length (trim k) > MAX_API_KEY_LENGTH V then
               ([], Some (ConfigurationError (JStr ''API key exceeds maximum length'')))
             else if startsWith (trim k) ''nrn_'' \<and> \<not> API_KEY_PATTERN V (trim k) then
               ([], Some (ConfigurationError (JStr ''Invalid API key format'')))
             else
               validateEndpoints [baseUrl config, mainApiUrl config, sdkBaseUrl config]
                 (allowInsecureHttp config)
         | other \<Rightarrow> ([], Some (ConfigurationError (JStr ''API key must be a string'')))))"

text \<open>
  Values of \<^verbatim>\<open>VALIDATION\<close> under which the keys of the unit tests of the client are
  accepted and rejected as those tests expect.
\<close>

definition sample_validation :: validation where
  "sample_validation =
     \<lparr>MIN_API_KEY_LENGTH = 10, MAX_API_KEY_LENGTH = 256, API_KEY_PATTERN = ID_PATTERN\<rparr>"

definition config_with_base :: "string \<Rightarrow> bool option \<Rightarrow> neurana_config" where
  "config_with_base url allow =
     \<lparr>apiKey = Some (JStr ''test-key-12345''), baseUrl = Some url, mainApiUrl = None,
      sdkBaseUrl = None, timeout = None, allowInsecureHttp = allow\<rparr>"

section \<open>The request method as a whole\<close>

text \<open>
  The first statement of \<^verbatim>\<open>request\<close> calls \<^verbatim>\<open>buildUrl\<close>, outside the \<^verbatim>\<open>try\<close> block
  and before the timer is armed. \<^verbatim>\<open>new URL(path, base)\<close> is the platform's: it resolves
  the path against the base or throws a \<^verbatim>\<open>TypeError\<close>, here \<open>None\<close>. A parameter whose
  value is \<^verbatim>\<open>undefined\<close> (\<open>None\<close>) is left out, the others are set on the URL.
\<close>

type_synonym url_parser = "string \<Rightarrow> string \<Rightarrow> string option"

definition buildUrl ::
  "url_parser \<Rightarrow> string \<Rightarrow> string \<Rightarrow> (string \<times> string option) list
     \<Rightarrow> thrown + string \<times> (string \<times> string) list" where
  "buildUrl newURL base path params =
     (case newURL path base of
        None \<Rightarrow> Inl (ThrownError ''TypeError'' ''Invalid URL'')
      | Some u \<Rightarrow> Inr (u, List.map_filter (\<lambda>(k, v). map_option (Pair k) v) params))"

text \<open>
  \<^verbatim>\<open>request\<close> from its first statement: what \<^verbatim>\<open>buildUrl\<close> throws leaves the method as
  it is, with no timer armed and no attempt made; otherwise the method goes on as
  \<open>request\<close> above describes.
\<close>

definition send_request ::
  "url_parser \<Rightarrow> string \<Rightarrow> string \<Rightarrow> (string \<times> string option) list \<Rightarrow> messages \<Rightarrow> nat
     \<Rightarrow> request_config \<Rightarrow> network \<Rightarrow> event list \<times> (thrown + result_value)" where
  "send_request newURL base path params em client_timeout config net =
     (case buildUrl newURL base path params of
        Inl err \<Rightarrow> ([], Inl err)
      | Inr url \<Rightarrow> request em client_timeout config net)"

text \<open>
  The base URL of the client that serves the workflow resources: the configured
  \<open>baseUrl\<close> or \<^verbatim>\<open>BASE_URL\<close>, without one trailing slash.
\<close>

definition BASE_URL :: string where
  "BASE_URL = ''https://workflows.neurana.io''"

definition workflows_base :: "neurana_config \<Rightarrow> string" where
  "workflows_base config =
     stripTrailingSlash (case baseUrl config of Some b \<Rightarrow> b | None \<Rightarrow> BASE_URL)"

text \<open>
  A stand-in for the URL constructor on the bases used below: a base with the scheme
  \<open>http\<close> or \<open>https\<close> resolves, and a base without a scheme and two slashes, such as
  \<open>localhost:3000\<close>, is refused, as the constructor refuses it.
\<close>

definition sample_newURL :: url_parser where
  "sample_newURL path base =
     (if startsWith base ''http://'' \<or> startsWith base ''https://'' then Some (base @ path)
      else None)"

section \<open>Properties of the response interpreter\<close>
















section \<open>Properties of the retry policy and the executor\<close>

lemmas retry_defs = MAX_ATTEMPTS_def INITIAL_DELAY_def MAX_DELAY_def BACKOFF_FACTOR_def RETRYABLE_STATUS_def

lemma retry_response:
  assumes "snd (fetch net sig attempt now) = Inr r" and "shouldRetry (status r) attempt"
  shows "executeWithRetry net sig attempt now =
           after [Fetch attempt now, Sleep (calculateDelay attempt)]
             (executeWithRetry net sig (attempt + 1)
                (fst (fetch net sig attempt now) + calculateDelay attempt))"
  using assms by (subst executeWithRetry.simps) simp

lemma final_response:
  assumes "snd (fetch net sig attempt now) = Inr r" and "\<not> shouldRetry (status r) attempt"
  shows "executeWithRetry net sig attempt now =
           ([Fetch attempt now], fst (fetch net sig attempt now), Inr r)"
  using assms by (subst executeWithRetry.simps) simp

lemma retry_thrown:
  assumes "snd (fetch net sig attempt now) = Inl e"
    and "isRetryableError e" and "attempt < MAX_ATTEMPTS"
  shows "executeWithRetry net sig attempt now =
           after [Fetch attempt now, Sleep (calculateDelay attempt)]
             (executeWithRetry net sig (attempt + 1)
                (fst (fetch net sig attempt now) + calculateDelay attempt))"
  using assms by (subst executeWithRetry.simps) simp

lemma final_thrown:
  assumes "snd (fetch net sig attempt now) = Inl e"
    and "\<not> (isRetryableError e \<and> attempt < MAX_ATTEMPTS)"
  shows "executeWithRetry net sig attempt now =
           ([Fetch attempt now], fst (fetch net sig attempt now), Inl e)"
  using assms by (subst executeWithRetry.simps) auto

lemma fst_after: "fst (after pre run) = pre @ fst run"
  by (cases run) simp

lemma snd_after: "snd (after pre run) = snd run"
  by (cases run) simp



lemma no_timer_events:
  "filter is_timer (fst (executeWithRetry net sig attempt now)) = []"
proof (induction net sig attempt now rule: executeWithRetry.induct)
  case (1 net sig attempt now)
  show ?case
  proof (cases "snd (fetch net sig attempt now)")
    case (Inl e)
    show ?thesis
    proof (cases "isRetryableError e \<and> attempt < MAX_ATTEMPTS")
      case True
      with Inl "1.IH"(1) [of e] show ?thesis
        by (simp add: retry_thrown [OF Inl] fst_after)
    next
      case False
      show ?thesis
        by (simp add: final_thrown [OF Inl False])
    qed
  next
    case (Inr r)
    show ?thesis
    proof (cases "shouldRetry (status r) attempt")
      case True
      with Inr "1.IH"(2) [of r] show ?thesis
        by (simp add: retry_response [OF Inr True] fst_after)
    next
      case False
      show ?thesis
        by (simp add: final_response [OF Inr False])
    qed
  qed
qed

lemma abort_not_retryable: "\<not> isRetryableError abort_error"
  by (simp add: isRetryableError_def abort_error_def)

lemma fetch_deadline:
  "snd (fetch net (AbortsAt T) attempt now) = Inl abort_error
   \<or> fst (fetch net (AbortsAt T) attempt now) < T"
  by (simp add: fetch_def)

lemma deadline_invariant:
  "snd (snd (executeWithRetry net (AbortsAt T) attempt now)) = Inl abort_error
   \<or> fst (snd (executeWithRetry net (AbortsAt T) attempt now)) < T"
proof (induction net "AbortsAt T" attempt now rule: executeWithRetry.induct)
  case (1 net attempt now)
  show ?case
  proof (cases "snd (fetch net (AbortsAt T) attempt now)")
    case (Inl e)
    show ?thesis
    proof (cases "isRetryableError e \<and> attempt < MAX_ATTEMPTS")
      case True
      with Inl "1.hyps"(1) [of e] show ?thesis
        by (simp add: retry_thrown [OF Inl] snd_after)
    next
      case False
      with Inl fetch_deadline [of net T attempt now] show ?thesis
        by (auto simp add: final_thrown [OF Inl False])
    qed
  next
    case (Inr r)
    show ?thesis
    proof (cases "shouldRetry (status r) attempt")
      case True
      with Inr "1.hyps"(2) [of r] show ?thesis
        by (simp add: retry_response [OF Inr True] snd_after)
    next
      case False
      with Inr fetch_deadline [of net T attempt now] show ?thesis
        by (auto simp add: final_response [OF Inr False])
    qed
  qed
qed

lemma calculateDelay_1: "calculateDelay 1 = 1000"
  by (simp add: calculateDelay_def retry_defs)


lemma shouldRetry_iff:
  "shouldRetry st attempt = (attempt < 3 \<and> st \<in> {408, 429, 500, 502, 503, 504})"
  by (auto simp: shouldRetry_def retry_defs)




lemma bare_simps [simp]:
  "status (bare st) = st" "content_type (bare st) = None" "retry_after (bare st) = None"
  "body_text (bare st) = Inr []" "body_json (bare st) = None"
  by (simp_all add: bare_def)


lemma request_outcome:
  "snd (request em T cfg net) =
     (case snd (snd (executeWithRetry net (request_signal T cfg) 1 0)) of
        Inr resp \<Rightarrow> handleResponse resp
      | Inl error \<Rightarrow> Inl (ThrownNeurana (handleError em error)))"
  by (simp add: request_def Let_def)

lemma request_events:
  "fst (request em T cfg net) =
     SetTimeout (request_timeout T cfg)
       # fst (executeWithRetry net (request_signal T cfg) 1 0) @ [ClearTimeout]"
  by (simp add: request_def Let_def)

lemma public_signal [simp]:
  "request_signal T \<lparr>rc_timeout = None, rc_signal = None\<rparr> = AbortsAt T"
  "request_timeout T \<lparr>rc_timeout = None, rc_signal = None\<rparr> = T"
  by (simp_all add: request_signal_def request_timeout_def)

lemma transport_exception_mapping:
  "(ok r \<and> status r \<noteq> 204 \<and> isJson r \<and> body_json r = None \<longrightarrow>
        handleResponse r =
          Inl (ThrownNeurana (NeuranaError (JStr ''Failed to parse response'')
                 (JStr ''PARSE_ERROR'') (Some (status r)) None)))
   \<and> handleError em (ThrownError ''AbortError'' msg) = TimeoutError (defaultMessage em TIMEOUT)
   \<and> (nm \<noteq> ''AbortError'' \<and> (str_includes msg ''fetch'' \<or> str_includes msg ''network'') \<longrightarrow>
        handleError em (ThrownError nm msg) = NetworkError (JStr ''Failed to connect to server''))
   \<and> (nm \<noteq> ''AbortError'' \<and> \<not> str_includes msg ''fetch'' \<and> \<not> str_includes msg ''network'' \<longrightarrow>
        handleError em (ThrownError nm msg) =
          NeuranaError (JStr ''An unexpected error occurred'') (JStr ''UNKNOWN_ERROR'') None None)
   \<and> handleError em ThrownOther =
        NeuranaError (JStr ''An unexpected error occurred'') (JStr ''UNKNOWN_ERROR'') None None
   \<and> handleError em (ThrownNeurana e) = e"
  by (simp add: handleError_def handleResponse_def NO_CONTENT_def)

lemma text_rejection_escapes:
  assumes "ok r" and "status r \<noteq> 204" and "\<not> isJson r" and "body_text r = Inl err"
  shows "handleResponse r = Inl err"
  using assms by (simp add: handleResponse_def NO_CONTENT_def)

lemma handleResponse_readable:
  assumes "body_text r = Inr t"
  shows "(\<exists>v. handleResponse r = Inr v) \<or> (\<exists>e. handleResponse r = Inl (ThrownNeurana e))"
  using assms by (simp add: handleResponse_def split: option.splits)

lemma invalid_url_escapes:
  assumes "newURL path base = None"
  shows "send_request newURL base path params em T cfg net
           = ([], Inl (ThrownError ''TypeError'' ''Invalid URL''))"
  using assms by (simp add: send_request_def buildUrl_def)

text \<open>
  C5. Two paths of \<^verbatim>\<open>request\<close> let a thrown value reach the caller that is no
  \<^verbatim>\<open>NeuranaError\<close>. First, \<^verbatim>\<open>handleResponse\<close> is returned without \<^verbatim>\<open>await\<close>, so a
  successful response with a content type other than JSON whose body stream breaks off
  gives the caller the \<^verbatim>\<open>TypeError\<close> of \<^verbatim>\<open>response.text()\<close>, which \<^verbatim>\<open>handleError\<close>
  would have turned into the error with code \<open>UNKNOWN_ERROR\<close>. Second, the URL is built
  before the \<^verbatim>\<open>try\<close> block: the base URL \<open>localhost:3000\<close> passes \<^verbatim>\<open>validateConfig\<close>,
  and every call then throws the \<^verbatim>\<open>TypeError\<close> of the URL constructor, with no timer
  armed and no attempt made.
\<close>

theorem raw_exception_reaches_caller:
  "http_call [] None
     (script [(100, Inr \<lparr>status = 200, content_type = Some ''text/plain'', retry_after = None,
                          body_text = Inl (ThrownError ''TypeError'' ''terminated''),
                          body_json = None\<rparr>)])
     = ([SetTimeout 30000, Fetch 1 0, ClearTimeout],
        Inl (ThrownError ''TypeError'' ''terminated''))
   \<and> handleError [] (ThrownError ''TypeError'' ''terminated'')
       = NeuranaError (JStr ''An unexpected error occurred'') (JStr ''UNKNOWN_ERROR'') None None
   \<and> validateConfig sample_validation (config_with_base ''localhost:3000'' None) = ([], None)
   \<and> send_request sample_newURL (workflows_base (config_with_base ''localhost:3000'' None))
        ''/workflows'' [] [] 30000 \<lparr>rc_timeout = None, rc_signal = None\<rparr> (script [])
       = ([], Inl (ThrownError ''TypeError'' ''Invalid URL''))"
proof -
  let ?r = "\<lparr>status = 200, content_type = Some ''text/plain'', retry_after = None,
             body_text = Inl (ThrownError ''TypeError'' ''terminated''), body_json = None\<rparr>"
  let ?net = "script [(100, Inr ?r)]"
  have f: "fetch ?net (AbortsAt 30000) 1 0 = (100, Inr ?r)"
    by (simp add: fetch_def script_def)
  then have g: "snd (fetch ?net (AbortsAt 30000) 1 0) = Inr ?r"
    by simp
  have "\<not> shouldRetry (status ?r) 1"
    by (simp add: shouldRetry_iff)
  from final_response [OF g this]
  have run: "executeWithRetry ?net (AbortsAt 30000) 1 0 = ([Fetch 1 0], 100, Inr ?r)"
    by (simp only: f fst_conv)
  have resp: "handleResponse ?r = Inl (ThrownError ''TypeError'' ''terminated'')"
    by (rule text_rejection_escapes) (simp_all add: ok_def isJson_def)
  have first: "http_call [] None ?net
     = ([SetTimeout 30000, Fetch 1 0, ClearTimeout],
        Inl (ThrownError ''TypeError'' ''terminated''))"
    using run resp
    by (simp add: http_call_def client_timeout_of_def TIMEOUTS_DEFAULT_def request_def)
  have second: "handleError [] (ThrownError ''TypeError'' ''terminated'')
       = NeuranaError (JStr ''An unexpected error occurred'') (JStr ''UNKNOWN_ERROR'') None None"
    by (simp add: handleError_def)
  have third: "validateConfig sample_validation (config_with_base ''localhost:3000'' None)
       = ([], None)"
    by (simp add: validateConfig_def sample_validation_def config_with_base_def trim_def
        isWhiteSpace_def validateEndpointSecurity_def Let_def)
  have "sample_newURL ''/workflows'' (workflows_base (config_with_base ''localhost:3000'' None))
          = None"
    by (simp add: sample_newURL_def workflows_base_def config_with_base_def
        stripTrailingSlash_def)
  then have fourth: "send_request sample_newURL
        (workflows_base (config_with_base ''localhost:3000'' None))
        ''/workflows'' [] [] 30000 \<lparr>rc_timeout = None, rc_signal = None\<rparr> (script [])
       = ([], Inl (ThrownError ''TypeError'' ''Invalid URL''))"
    by (rule invalid_url_escapes)
  from first second third fourth show ?thesis
    by (intro conjI)
qed

lemma abort_stops:
  assumes "snd (fetch net sig attempt now) = Inl abort_error"
  shows "executeWithRetry net sig attempt now =
           ([Fetch attempt now], fst (fetch net sig attempt now), Inl abort_error)"
  using final_thrown [OF assms] abort_not_retryable by simp

lemma handleError_abort:
  "handleError em abort_error = TimeoutError (defaultMessage em TIMEOUT)"
  by (simp add: handleError_def abort_error_def)

text \<open>
  C7. An attempt that is aborted ends the operation at once: no sleep, no further
  attempt, and the outcome is a \<^verbatim>\<open>TimeoutError\<close>. After a rejected attempt another
  attempt follows exactly when \<^verbatim>\<open>isRetryableError\<close> holds (the error is a
  \<^verbatim>\<open>TypeError\<close> or its message contains \<open>network\<close>) and the attempt number is below 3.
\<close>

theorem cancellation_is_timeout_without_retry:
  "(snd (fetch net sig attempt now) = Inl abort_error \<longrightarrow>
      executeWithRetry net sig attempt now =
        ([Fetch attempt now], fst (fetch net sig attempt now), Inl abort_error))
   \<and> (snd (snd (executeWithRetry net (AbortsAt T) 1 0)) = Inl abort_error \<longrightarrow>
        snd (request em T \<lparr>rc_timeout = None, rc_signal = None\<rparr> net) =
          Inl (ThrownNeurana (TimeoutError (defaultMessage em TIMEOUT))))
   \<and> name (TimeoutError (defaultMessage em TIMEOUT)) = ''TimeoutError''
   \<and> (snd (fetch net sig attempt now) = Inl e \<longrightarrow>
        (fst (executeWithRetry net sig attempt now) \<noteq> [Fetch attempt now])
          = (isRetryableError e \<and> attempt < 3))
   \<and> isRetryableError (ThrownError nm msg) = (nm = ''TypeError'' \<or> str_includes msg ''network'')
   \<and> \<not> isRetryableError ThrownOther"
proof (intro conjI impI)
  assume "snd (fetch net sig attempt now) = Inl abort_error"
  then show "executeWithRetry net sig attempt now =
        ([Fetch attempt now], fst (fetch net sig attempt now), Inl abort_error)"
    by (rule abort_stops)
next
  assume "snd (snd (executeWithRetry net (AbortsAt T) 1 0)) = Inl abort_error"
  then show "snd (request em T \<lparr>rc_timeout = None, rc_signal = None\<rparr> net) =
          Inl (ThrownNeurana (TimeoutError (defaultMessage em TIMEOUT)))"
    by (simp add: request_outcome handleError_abort)
next
  show "name (TimeoutError (defaultMessage em TIMEOUT)) = ''TimeoutError''"
    by (simp add: TimeoutError_def)
next
  assume thrown: "snd (fetch net sig attempt now) = Inl e"
  show "(fst (executeWithRetry net sig attempt now) \<noteq> [Fetch attempt now])
          = (isRetryableError e \<and> attempt < 3)"
  proof (cases "isRetryableError e \<and> attempt < MAX_ATTEMPTS")
    case True
    then show ?thesis
      using retry_thrown [OF thrown] by (simp add: fst_after MAX_ATTEMPTS_def)
  next
    case False
    then show ?thesis
      using final_thrown [OF thrown False] by (auto simp: MAX_ATTEMPTS_def)
  qed
next
  show "isRetryableError (ThrownError nm msg) = (nm = ''TypeError'' \<or> str_includes msg ''network'')"
    by (simp add: isRetryableError_def)
next
  show "\<not> isRetryableError ThrownOther"
    by (simp add: isRetryableError_def)
qed

theorem cancellation_is_timeout_without_retry_witness:
  "snd (fetch (script [(40000, Inr (bare 200))]) (AbortsAt 30000) 1 0) = Inl abort_error
   \<and> executeWithRetry (script [(40000, Inr (bare 200))]) (AbortsAt 30000) 1 0
       = ([Fetch 1 0], 30000, Inl abort_error)
   \<and> snd (request [] 30000 \<lparr>rc_timeout = None, rc_signal = None\<rparr>
             (script [(40000, Inr (bare 200))]))
       = Inl (ThrownNeurana (TimeoutError (JStr [])))
   \<and> snd (fetch (script []) NeverAborts 2 0) = Inl (ThrownError ''TypeError'' ''fetch failed'')
   \<and> fst (executeWithRetry (script []) NeverAborts 2 0) \<noteq> [Fetch 2 0]"
  using cancellation_is_timeout_without_retry [where net = "script [(40000, Inr (bare 200))]"
          and sig = "AbortsAt 30000" and attempt = 1 and now = 0 and T = 30000 and em = "[]"
          and e = abort_error]
        cancellation_is_timeout_without_retry [where net = "script []"
          and sig = NeverAborts and attempt = 2 and now = 0
          and e = "ThrownError ''TypeError'' ''fetch failed''"]
  by (simp add: script_def fetch_def defaultMessage_def isRetryableError_def)

text \<open>
  The deadline is not per attempt. With the default timeout of 30000 ms, a first attempt
  that takes 20000 ms and ends with status 503 is followed by a sleep of 1000 ms and a
  second attempt that would need 20000 ms; the timer armed at the start of the request
  fires 9000 ms into that attempt. The trace has one \<open>SetTimeout\<close> for two attempts.
\<close>

theorem per_attempt_deadline_counterexample:
  "fst (script [(20000, Inr (bare 503)), (20000, Inr (bare 200))] 2) < 30000
   \<and> http_call [] None (script [(20000, Inr (bare 503)), (20000, Inr (bare 200))])
       = ([SetTimeout 30000, Fetch 1 0, Sleep 1000, Fetch 2 21000, ClearTimeout],
          Inl (ThrownNeurana (TimeoutError (JStr []))))"
proof -
  let ?net = "script [(20000, Inr (bare 503)), (20000, Inr (bare 200))]"
  have f1: "fetch ?net (AbortsAt 30000) 1 0 = (20000, Inr (bare 503))"
    by (simp add: fetch_def script_def)
  have f2: "fetch ?net (AbortsAt 30000) 2 21000 = (30000, Inl abort_error)"
    by (simp add: fetch_def script_def)
  have g1: "snd (fetch ?net (AbortsAt 30000) 1 0) = Inr (bare 503)"
    and g2: "snd (fetch ?net (AbortsAt 30000) 2 21000) = Inl abort_error"
    by (simp_all only: f1 f2 snd_conv)
  have sr: "shouldRetry (status (bare 503)) 1"
    by (simp add: shouldRetry_iff)
  have t: "(20000::nat) + 1000 = 21000"
    by simp
  have e2: "executeWithRetry ?net (AbortsAt 30000) 2 21000 = ([Fetch 2 21000], 30000, Inl abort_error)"
    using abort_stops [OF g2] by (simp only: f2 fst_conv)
  have "executeWithRetry ?net (AbortsAt 30000) 1 0 =
          after [Fetch 1 0, Sleep 1000] (executeWithRetry ?net (AbortsAt 30000) 2 21000)"
    using retry_response [OF g1 sr]
    by (simp only: f1 fst_conv one_add_one calculateDelay_1 t)
  then have run: "executeWithRetry ?net (AbortsAt 30000) 1 0 =
          ([Fetch 1 0, Sleep 1000, Fetch 2 21000], 30000, Inl abort_error)"
    by (simp only: e2 after.simps append.simps)
  show ?thesis
    using run
    by (simp add: http_call_def client_timeout_of_def TIMEOUTS_DEFAULT_def request_def
        handleError_abort defaultMessage_def script_def)
qed

lemma deadline_aborts:
  assumes "D \<le> now + fst (net attempt)"
  shows "executeWithRetry net (AbortsAt D) attempt now = ([Fetch attempt now], max now D, Inl abort_error)"
proof -
  from assms have f: "fetch net (AbortsAt D) attempt now = (max now D, Inl abort_error)"
    by (simp add: fetch_def)
  then have "snd (fetch net (AbortsAt D) attempt now) = Inl abort_error"
    by simp
  from abort_stops [OF this] f show ?thesis
    by simp
qed

text \<open>
  C8, as the code has it. One timer is armed when \<^verbatim>\<open>request\<close> starts, before the first
  attempt, and cleared once after the last one, whatever the outcome; the attempts and
  the sleeps between them arm and clear no timer. Unless the call brings a signal of its
  own, the operation either ends in a \<^verbatim>\<open>TimeoutError\<close> or its last attempt finished
  before the timeout had passed since the start of the operation: an attempt whose
  response would not arrive before that deadline is aborted and not retried.
\<close>

theorem deadline_per_operation:
  "fst (request em T cfg net) =
       SetTimeout (request_timeout T cfg)
         # fst (executeWithRetry net (request_signal T cfg) 1 0) @ [ClearTimeout]
   \<and> filter is_timer (fst (executeWithRetry net (request_signal T cfg) 1 0)) = []
   \<and> (rc_signal cfg = None \<longrightarrow>
        snd (request em T cfg net) = Inl (ThrownNeurana (TimeoutError (defaultMessage em TIMEOUT)))
        \<or> fst (snd (executeWithRetry net (request_signal T cfg) 1 0)) < request_timeout T cfg)
   \<and> (D \<le> now + fst (net attempt) \<longrightarrow>
        executeWithRetry net (AbortsAt D) attempt now
          = ([Fetch attempt now], max now D, Inl abort_error)
        \<and> handleError em abort_error = TimeoutError (defaultMessage em TIMEOUT))"
proof (intro conjI impI)
  show "fst (request em T cfg net) =
       SetTimeout (request_timeout T cfg)
         # fst (executeWithRetry net (request_signal T cfg) 1 0) @ [ClearTimeout]"
    by (rule request_events)
next
  show "filter is_timer (fst (executeWithRetry net (request_signal T cfg) 1 0)) = []"
    by (rule no_timer_events)
next
  assume nosig: "rc_signal cfg = None"
  then have sig: "request_signal T cfg = AbortsAt (request_timeout T cfg)"
    by (simp add: request_signal_def)
  from deadline_invariant [of net "request_timeout T cfg" 1 0]
  show "snd (request em T cfg net) = Inl (ThrownNeurana (TimeoutError (defaultMessage em TIMEOUT)))
        \<or> fst (snd (executeWithRetry net (request_signal T cfg) 1 0)) < request_timeout T cfg"
  proof
    assume "snd (snd (executeWithRetry net (AbortsAt (request_timeout T cfg)) 1 0)) = Inl abort_error"
    then have "snd (request em T cfg net) = Inl (ThrownNeurana (TimeoutError (defaultMessage em TIMEOUT)))"
      by (simp add: request_outcome sig handleError_abort)
    then show ?thesis ..
  next
    assume "fst (snd (executeWithRetry net (AbortsAt (request_timeout T cfg)) 1 0)) < request_timeout T cfg"
    then show ?thesis
      by (simp add: sig)
  qed
next
  assume "D \<le> now + fst (net attempt)"
  then show "executeWithRetry net (AbortsAt D) attempt now
          = ([Fetch attempt now], max now D, Inl abort_error)"
    by (rule deadline_aborts)
next
  show "handleError em abort_error = TimeoutError (defaultMessage em TIMEOUT)"
    by (rule handleError_abort)
qed

theorem deadline_per_operation_witness:
  "rc_signal \<lparr>rc_timeout = None, rc_signal = None\<rparr> = None
   \<and> (30000::nat) \<le> 21000 + fst (script [(20000, Inr (bare 503)), (20000, Inr (bare 200))] 2)
   \<and> executeWithRetry (script [(20000, Inr (bare 503)), (20000, Inr (bare 200))])
        (AbortsAt 30000) 2 21000
       = ([Fetch 2 21000], 30000, Inl abort_error)
   \<and> fst (request [] 30000 \<lparr>rc_timeout = None, rc_signal = None\<rparr>
             (script [(20000, Inr (bare 503)), (20000, Inr (bare 200))]))
       = SetTimeout 30000
           # fst (executeWithRetry (script [(20000, Inr (bare 503)), (20000, Inr (bare 200))])
                    (AbortsAt 30000) 1 0) @ [ClearTimeout]"
  using deadline_per_operation [where net = "script [(20000, Inr (bare 503)), (20000, Inr (bare 200))]"
          and D = 30000 and now = 21000 and attempt = 2 and em = "[]" and T = 30000
          and cfg = "\<lparr>rc_timeout = None, rc_signal = None\<rparr>"]
  by (simp add: script_def)

section \<open>Properties of the step orchestrator\<close>

lemma processStep_other:
  "step_type s \<noteq> ''code'' \<Longrightarrow> processStep up i s = ([], Inr s)"
  by (simp add: processStep_def)

lemma processStep_code_ok:
  assumes "step_type s = ''code''" and "snd (processStep up i s) = Inr s'"
  shows "\<exists>fn src lang key.
           fst (processStep up i s) = [Upload i fn src lang] \<and> up fn src lang = Inr key
           \<and> map_of (step_config s) ''code'' = Some (JStr src)
           \<and> s' = s\<lparr>step_config :=
                      AList.update ''fileId'' (JStr key)
                        (AList.delete ''fileName'' (AList.delete ''code'' (step_config s)))\<rparr>"
  using assms
  by (auto simp: processStep_def Let_def split: if_splits option.splits json.splits sum.splits)

lemma processStep_events:
  "ev \<in> set (fst (processStep up i s)) \<Longrightarrow> upload_index ev = Some i"
  by (auto simp: processStep_def Let_def split: if_splits option.splits json.splits sum.splits)

lemma processStepsFrom_Cons_ok:
  assumes "snd (processStepsFrom up i (s # ss)) = Inr out"
  shows "\<exists>s' ss'. out = s' # ss' \<and> snd (processStep up i s) = Inr s'
           \<and> snd (processStepsFrom up (Suc i) ss) = Inr ss'
           \<and> fst (processStepsFrom up i (s # ss))
               = fst (processStep up i s) @ fst (processStepsFrom up (Suc i) ss)"
  using assms by (auto split: sum.splits)

lemma processStepsFrom_ok:
  assumes "snd (processStepsFrom up i steps) = Inr out"
  shows "length out = length steps
         \<and> (\<forall>k<length steps. snd (processStep up (i + k) (steps ! k)) = Inr (out ! k)
               \<and> set (fst (processStep up (i + k) (steps ! k)))
                    \<subseteq> set (fst (processStepsFrom up i steps)))"
  using assms
proof (induction steps arbitrary: i out)
  case Nil
  then show ?case by simp
next
  case (Cons s ss)
  from processStepsFrom_Cons_ok [OF Cons.prems] obtain s' ss' where
    out: "out = s' # ss'" and hd: "snd (processStep up i s) = Inr s'"
    and tl: "snd (processStepsFrom up (Suc i) ss) = Inr ss'"
    and evs: "fst (processStepsFrom up i (s # ss))
               = fst (processStep up i s) @ fst (processStepsFrom up (Suc i) ss)"
    by blast
  note IH = Cons.IH [OF tl]
  show ?case
  proof (intro conjI allI impI)
    show "length out = length (s # ss)"
      using IH out by simp
  next
    fix k assume k: "k < length (s # ss)"
    show "snd (processStep up (i + k) ((s # ss) ! k)) = Inr (out ! k)"
    proof (cases k)
      case 0
      with hd out show ?thesis by simp
    next
      case (Suc j)
      with k IH out show ?thesis by simp
    qed
  next
    fix k assume k: "k < length (s # ss)"
    show "set (fst (processStep up (i + k) ((s # ss) ! k)))
            \<subseteq> set (fst (processStepsFrom up i (s # ss)))"
    proof (cases k)
      case 0
      then show ?thesis unfolding evs by simp
    next
      case (Suc j)
      with k IH have "set (fst (processStep up (Suc i + j) (ss ! j)))
                        \<subseteq> set (fst (processStepsFrom up (Suc i) ss))"
        by simp
      with Suc show ?thesis unfolding evs by auto
    qed
  qed
qed

lemma processStepsFrom_events:
  "ev \<in> set (fst (processStepsFrom up i steps)) \<Longrightarrow>
     \<exists>k. upload_index ev = Some k \<and> i \<le> k \<and> k < i + length steps"
proof (induction steps arbitrary: i)
  case Nil
  then show ?case by simp
next
  case (Cons s ss)
  from Cons.prems have "ev \<in> set (fst (processStep up i s))
      \<or> ev \<in> set (fst (processStepsFrom up (Suc i) ss))"
    by (auto split: sum.splits)
  then show ?case
  proof
    assume "ev \<in> set (fst (processStep up i s))"
    then have "upload_index ev = Some i" by (rule processStep_events)
    then show ?thesis by simp
  next
    assume "ev \<in> set (fst (processStepsFrom up (Suc i) ss))"
    from Cons.IH [OF this] obtain k where "upload_index ev = Some k" "Suc i \<le> k" "k < Suc i + length ss"
      by blast
    then show ?thesis by auto
  qed
qed

lemma upload_index_is_upload: "upload_index ev = Some k \<Longrightarrow> is_upload ev"
  by (cases ev) simp_all

lemma processSteps_only_uploads: "list_all is_upload (fst (processSteps up steps))"
  unfolding list_all_iff processSteps_def
  using processStepsFrom_events upload_index_is_upload by blast

lemma rewritten_config:
  "map_of (AList.update ''fileId'' (JStr key)
             (AList.delete ''fileName'' (AList.delete ''code'' cfg)))
     = (map_of cfg)(''code'' := None, ''fileName'' := None, ''fileId'' \<mapsto> JStr key)"
  by (simp add: AList.update_conv' AList.delete_conv')

lemma processed_steps_safe:
  assumes ok: "snd (processSteps up steps) = Inr out"
  shows "length out = length steps
     \<and> (\<forall>k<length steps.
          step_type (out ! k) = step_type (steps ! k)
          \<and> step_name (out ! k) = step_name (steps ! k)
          \<and> step_next (out ! k) = step_next (steps ! k)
          \<and> step_condition (out ! k) = step_condition (steps ! k)
          \<and> (step_type (steps ! k) \<noteq> ''code'' \<longrightarrow> out ! k = steps ! k)
          \<and> (step_type (steps ! k) = ''code'' \<longrightarrow>
               (\<exists>fn src lang key.
                  Upload k fn src lang \<in> set (fst (processSteps up steps))
                  \<and> up fn src lang = Inr key
                  \<and> map_of (step_config (steps ! k)) ''code'' = Some (JStr src)
                  \<and> map_of (step_config (out ! k))
                      = (map_of (step_config (steps ! k)))
                          (''code'' := None, ''fileName'' := None, ''fileId'' \<mapsto> JStr key))))"
proof -
  from ok have ok': "snd (processStepsFrom up 0 steps) = Inr out"
    by (simp add: processSteps_def)
  note all = processStepsFrom_ok [OF ok']
  show ?thesis
  proof (intro conjI allI impI)
    show "length out = length steps" using all by simp
  next
    fix k assume k: "k < length steps"
    with all have res: "snd (processStep up k (steps ! k)) = Inr (out ! k)"
      and sub: "set (fst (processStep up k (steps ! k))) \<subseteq> set (fst (processSteps up steps))"
      by (simp_all add: processSteps_def)
    have same: "step_type (out ! k) = step_type (steps ! k)
          \<and> step_name (out ! k) = step_name (steps ! k)
          \<and> step_next (out ! k) = step_next (steps ! k)
          \<and> step_condition (out ! k) = step_condition (steps ! k)"
    proof (cases "step_type (steps ! k) = ''code''")
      case True
      from processStep_code_ok [OF True res] show ?thesis by auto
    next
      case False
      from processStep_other [OF False, of up k] res show ?thesis by simp
    qed
    from same show "step_type (out ! k) = step_type (steps ! k)" by simp
    from same show "step_name (out ! k) = step_name (steps ! k)" by simp
    from same show "step_next (out ! k) = step_next (steps ! k)" by simp
    from same show "step_condition (out ! k) = step_condition (steps ! k)" by simp
    {
      assume other: "step_type (steps ! k) \<noteq> ''code''"
      from processStep_other [OF other, of up k] res show "out ! k = steps ! k" by simp
    }
    {
      assume code: "step_type (steps ! k) = ''code''"
      from processStep_code_ok [OF code res] obtain fn src lang key where
        ev: "fst (processStep up k (steps ! k)) = [Upload k fn src lang]"
        and up: "up fn src lang = Inr key"
        and src: "map_of (step_config (steps ! k)) ''code'' = Some (JStr src)"
        and out: "out ! k = (steps ! k)\<lparr>step_config :=
                      AList.update ''fileId'' (JStr key)
                        (AList.delete ''fileName'' (AList.delete ''code'' (step_config (steps ! k))))\<rparr>"
        by blast
      from ev sub have "Upload k fn src lang \<in> set (fst (processSteps up steps))" by simp
      moreover from out have "map_of (step_config (out ! k))
                      = (map_of (step_config (steps ! k)))
                          (''code'' := None, ''fileName'' := None, ''fileId'' \<mapsto> JStr key)"
        by (simp add: rewritten_config)
      ultimately show "\<exists>fn src lang key.
                  Upload k fn src lang \<in> set (fst (processSteps up steps))
                  \<and> up fn src lang = Inr key
                  \<and> map_of (step_config (steps ! k)) ''code'' = Some (JStr src)
                  \<and> map_of (step_config (out ! k))
                      = (map_of (step_config (steps ! k)))
                          (''code'' := None, ''fileName'' := None, ''fileId'' \<mapsto> JStr key)"
        using up src by blast
    }
  qed
qed

lemma not_upload_post: "list_all is_upload evs \<Longrightarrow> HttpPost p q \<notin> set evs \<and> HttpPatch p q \<notin> set evs"
  by (auto simp: list_all_iff)

lemma create_sent:
  assumes "create post up base data = (evs, res)"
    and "HttpPost path payload \<in> set evs \<or> HttpPatch path payload \<in> set evs"
    and "wf_steps data = Some steps"
  shows "\<exists>out. snd (processSteps up steps) = Inr out \<and> wf_steps payload = Some out
           \<and> evs = fst (processSteps up steps) @ [HttpPost path payload]"
  using assms not_upload_post [OF processSteps_only_uploads, of _ _ up steps]
  by (auto simp: create_def split: if_splits sum.splits)

lemma update_sent:
  assumes "update patch up base ident data = (evs, res)"
    and "HttpPost path payload \<in> set evs \<or> HttpPatch path payload \<in> set evs"
    and "wf_steps data = Some steps"
  shows "\<exists>out. snd (processSteps up steps) = Inr out \<and> wf_steps payload = Some out
           \<and> evs = fst (processSteps up steps) @ [HttpPatch path payload]"
  using assms not_upload_post [OF processSteps_only_uploads, of _ _ up steps]
  by (auto simp: update_def processSteps_def split: if_splits sum.splits option.splits)

text \<open>
  C2. Whenever \<^verbatim>\<open>create\<close> or \<^verbatim>\<open>update\<close> issues the workflow request for a request with
  steps, all steps have been processed before: the trace is the uploads followed by that
  one request, and the steps in its payload are the processed steps, in the same number
  and order. A step of another type is passed on as it is. A code step keeps type, name,
  next and condition; its configuration has lost \<open>code\<close> and \<open>fileName\<close>, has gained
  \<open>fileId\<close> with the key its upload returned, and agrees with the original on every
  other key.
\<close>

theorem code_steps_rewritten_before_send:
  assumes call: "create http up base data = (evs, res)
                 \<or> update http up base ident data = (evs, res)"
    and sent: "HttpPost path payload \<in> set evs \<or> HttpPatch path payload \<in> set evs"
    and steps: "wf_steps data = Some steps"
  shows "\<exists>out. wf_steps payload = Some out
     \<and> snd (processSteps up steps) = Inr out
     \<and> list_all is_upload (fst (processSteps up steps))
     \<and> (evs = fst (processSteps up steps) @ [HttpPost path payload]
        \<or> evs = fst (processSteps up steps) @ [HttpPatch path payload])
     \<and> length out = length steps
     \<and> (\<forall>k<length steps.
          step_type (out ! k) = step_type (steps ! k)
          \<and> step_name (out ! k) = step_name (steps ! k)
          \<and> step_next (out ! k) = step_next (steps ! k)
          \<and> step_condition (out ! k) = step_condition (steps ! k)
          \<and> (step_type (steps ! k) \<noteq> ''code'' \<longrightarrow> out ! k = steps ! k)
          \<and> (step_type (steps ! k) = ''code'' \<longrightarrow>
               (\<exists>fn src lang key.
                  Upload k fn src lang \<in> set (fst (processSteps up steps))
                  \<and> up fn src lang = Inr key
                  \<and> map_of (step_config (steps ! k)) ''code'' = Some (JStr src)
                  \<and> map_of (step_config (out ! k))
                      = (map_of (step_config (steps ! k)))
                          (''code'' := None, ''fileName'' := None, ''fileId'' \<mapsto> JStr key))))"
proof -
  from call obtain out where out: "snd (processSteps up steps) = Inr out"
    and payload: "wf_steps payload = Some out"
    and evs: "evs = fst (processSteps up steps) @ [HttpPost path payload]
        \<or> evs = fst (processSteps up steps) @ [HttpPatch path payload]"
  proof
    assume "create http up base data = (evs, res)"
    from create_sent [OF this sent steps] that show ?thesis by blast
  next
    assume "update http up base ident data = (evs, res)"
    from update_sent [OF this sent steps] that show ?thesis by blast
  qed
  from processed_steps_safe [OF out] payload out evs processSteps_only_uploads [of up steps]
  show ?thesis
    by (intro exI [of _ out] conjI) simp_all
qed

theorem code_steps_rewritten_before_send_witness:
  "create sample_http sample_uploader None
     (named_request
        [code_step [(''runtime'', JStr ''python''), (''code'', JStr ''print(1)''),
                    (''fileName'', JStr ''main.py''), (''timeout'', JNum 30)],
         plain_step ''http'' [(''url'', JStr ''https://example.com'')]])
   = ([Upload 0 (JStr ''main.py'') ''print(1)'' ''python'',
       HttpPost ''/workflows''
         (named_request
            [code_step [(''runtime'', JStr ''python''), (''timeout'', JNum 30),
                        (''fileId'', JStr ''code-file-uuid-123'')],
             plain_step ''http'' [(''url'', JStr ''https://example.com'')]])],
      Inr \<lparr>tenantId = ''tenant'', workflowKey = ''wf'', workflowUrl = None\<rparr>)
   \<and> (\<exists>out. wf_steps
          (named_request
            [code_step [(''runtime'', JStr ''python''), (''timeout'', JNum 30),
                        (''fileId'', JStr ''code-file-uuid-123'')],
             plain_step ''http'' [(''url'', JStr ''https://example.com'')]]) = Some out
        \<and> map_of (step_config (out ! 0)) ''code'' = None
        \<and> map_of (step_config (out ! 0)) ''fileName'' = None
        \<and> map_of (step_config (out ! 0)) ''fileId'' = Some (JStr ''code-file-uuid-123'')
        \<and> out ! 1 = plain_step ''http'' [(''url'', JStr ''https://example.com'')])"
proof -
  let ?steps = "[code_step [(''runtime'', JStr ''python''), (''code'', JStr ''print(1)''),
                    (''fileName'', JStr ''main.py''), (''timeout'', JNum 30)],
         plain_step ''http'' [(''url'', JStr ''https://example.com'')]]"
  let ?out = "[code_step [(''runtime'', JStr ''python''), (''timeout'', JNum 30),
                        (''fileId'', JStr ''code-file-uuid-123'')],
             plain_step ''http'' [(''url'', JStr ''https://example.com'')]]"
  let ?evs = "[Upload 0 (JStr ''main.py'') ''print(1)'' ''python'',
               HttpPost ''/workflows'' (named_request ?out)]"
  let ?res = "Inr \<lparr>tenantId = ''tenant'', workflowKey = ''wf'', workflowUrl = None\<rparr>"
  have run: "create sample_http sample_uploader None (named_request ?steps) = (?evs, ?res)"
    by (simp add: create_def named_request_def isBlank_def trim_def isWhiteSpace_def
        processSteps_def processStep_def code_step_def plain_step_def sample_uploader_def
        sample_http_def enrichWorkflowResponse_def buildWorkflowUrl_def AList.delete_eq Let_def)
  have sent: "HttpPost ''/workflows'' (named_request ?out) \<in> set ?evs
              \<or> HttpPatch ''/workflows'' (named_request ?out) \<in> set ?evs"
    by simp
  have steps: "wf_steps (named_request ?steps) = Some ?steps"
    by (simp add: named_request_def)
  from code_steps_rewritten_before_send [OF disjI1 [OF run] sent steps]
  have "\<exists>out. wf_steps (named_request ?out) = Some out
        \<and> map_of (step_config (out ! 0)) ''code'' = None
        \<and> map_of (step_config (out ! 0)) ''fileName'' = None
        \<and> map_of (step_config (out ! 0)) ''fileId'' = Some (JStr ''code-file-uuid-123'')
        \<and> out ! 1 = plain_step ''http'' [(''url'', JStr ''https://example.com'')]"
    by (auto simp: named_request_def code_step_def plain_step_def sample_uploader_def)
  with run show ?thesis
    by blast
qed

lemma processStep_invalid:
  assumes code: "step_type s = ''code''"
    and invalid: "map_of (step_config s) ''runtime'' \<notin> {Some (JStr ''python''), Some (JStr ''node'')}
         \<or> map_of (step_config s) ''code'' \<in> {None, Some JNull}
         \<or> (\<exists>src. map_of (step_config s) ''code'' = Some (JStr src) \<and> trim src = [])"
  shows "\<exists>reason. processStep up i s = ([], Inl (stepError i reason))"
proof (cases "map_of (step_config s) ''runtime'' \<in> {Some (JStr ''python''), Some (JStr ''node'')}")
  case False
  with code show ?thesis
    by (auto simp: processStep_def Let_def)
next
  case True
  then have t: "truthy (map_of (step_config s) ''runtime'')"
    by auto
  from True invalid have "map_of (step_config s) ''code'' \<in> {None, Some JNull}
         \<or> (\<exists>src. map_of (step_config s) ''code'' = Some (JStr src) \<and> trim src = [])"
    by blast
  with code True t show ?thesis
    by (auto simp: processStep_def Let_def)
qed

lemma fail_at:
  assumes "j < length steps"
    and "processStep up (i + j) (steps ! j) = ([], Inl e)"
  shows "(\<exists>e'. snd (processStepsFrom up i steps) = Inl e')
     \<and> (\<forall>ev\<in>set (fst (processStepsFrom up i steps)). \<exists>k. upload_index ev = Some k \<and> k < i + j)
     \<and> ((\<forall>k<j. \<exists>s'. snd (processStep up (i + k) (steps ! k)) = Inr s') \<longrightarrow>
          snd (processStepsFrom up i steps) = Inl e)"
  using assms
proof (induction steps arbitrary: i j)
  case Nil
  then show ?case by simp
next
  case (Cons s ss)
  show ?case
  proof (cases j)
    case 0
    with Cons.prems show ?thesis by simp
  next
    case (Suc j')
    with Cons.prems have j': "j' < length ss"
      and at: "processStep up (Suc i + j') (ss ! j') = ([], Inl e)"
      by simp_all
    note IH = Cons.IH [OF j' at]
    have here: "\<forall>ev\<in>set (fst (processStep up i s)). \<exists>k. upload_index ev = Some k \<and> k < i + j"
      using processStep_events [of _ up i s] Suc by auto
    have later: "\<forall>ev\<in>set (fst (processStepsFrom up (Suc i) ss)).
                   \<exists>k. upload_index ev = Some k \<and> k < i + j"
      using IH Suc by auto
    show ?thesis
    proof (cases "snd (processStep up i s)")
      case (Inl err)
      have "\<not> (\<forall>k<j. \<exists>s'. snd (processStep up (i + k) ((s # ss) ! k)) = Inr s')"
      proof
        assume "\<forall>k<j. \<exists>s'. snd (processStep up (i + k) ((s # ss) ! k)) = Inr s'"
        with Suc have "\<exists>s'. snd (processStep up (i + 0) ((s # ss) ! 0)) = Inr s'"
          by blast
        with Inl show False by simp
      qed
      with Inl here show ?thesis by auto
    next
      case (Inr s')
      from IH obtain e' where e': "snd (processStepsFrom up (Suc i) ss) = Inl e'"
        by blast
      have prefix: "(\<forall>k<j. \<exists>s'. snd (processStep up (i + k) ((s # ss) ! k)) = Inr s')
                     \<Longrightarrow> \<forall>k<j'. \<exists>s'. snd (processStep up (Suc i + k) (ss ! k)) = Inr s'"
      proof (intro allI impI)
        fix k assume all: "\<forall>k<j. \<exists>s'. snd (processStep up (i + k) ((s # ss) ! k)) = Inr s'"
          and "k < j'"
        with Suc have "Suc k < j" by simp
        with all have "\<exists>s'. snd (processStep up (i + Suc k) ((s # ss) ! Suc k)) = Inr s'"
          by blast
        then show "\<exists>s'. snd (processStep up (Suc i + k) (ss ! k)) = Inr s'" by simp
      qed
      from Inr e' here later IH prefix show ?thesis
        by (auto simp del: upload_index.simps)
    qed
  qed
qed

lemma upload_index_not_request:
  "(\<exists>k. upload_index ev = Some k \<and> k < i) \<Longrightarrow> is_upload ev"
  using upload_index_is_upload by blast

text \<open>
  C3. If the step at index \<open>i\<close> is a code step whose runtime is not \<open>python\<close> or
  \<open>node\<close> (or is missing), or whose code is missing or blank, then \<^verbatim>\<open>processSteps\<close>
  throws, and every upload it has issued is for a step before \<open>i\<close>: none for step \<open>i\<close>,
  none for a later step. If the steps before \<open>i\<close> go through, what is thrown is the
  \<^verbatim>\<open>ValidationError\<close> whose message starts with \<open>Step\<close> and the position \<open>i + 1\<close>.
  \<^verbatim>\<open>create\<close> and \<^verbatim>\<open>update\<close> then fail too, without a workflow request.
\<close>

theorem invalid_code_step_fails_fast:
  assumes idx: "i < length steps" and code: "step_type (steps ! i) = ''code''"
    and invalid:
      "map_of (step_config (steps ! i)) ''runtime'' \<notin> {Some (JStr ''python''), Some (JStr ''node'')}
       \<or> map_of (step_config (steps ! i)) ''code'' \<in> {None, Some JNull}
       \<or> (\<exists>src. map_of (step_config (steps ! i)) ''code'' = Some (JStr src) \<and> trim src = [])"
  shows "(\<exists>e. snd (processSteps up steps) = Inl e)
     \<and> (\<forall>ev\<in>set (fst (processSteps up steps)). \<exists>k. upload_index ev = Some k \<and> k < i)
     \<and> ((\<forall>k<i. \<exists>s'. snd (processStep up k (steps ! k)) = Inr s') \<longrightarrow>
          (\<exists>reason. snd (processSteps up steps) =
             Inl (ThrownNeurana (ValidationError
                    (JStr (''Step '' @ show_nat (i + 1) @ '': '' @ reason)) None))))
     \<and> (wf_steps data = Some steps \<longrightarrow>
          (\<exists>e. snd (create http up base data) = Inl e)
          \<and> (\<forall>ev\<in>set (fst (create http up base data)). \<exists>k. upload_index ev = Some k \<and> k < i)
          \<and> (\<exists>e. snd (update http up base ident data) = Inl e)
          \<and> (\<forall>ev\<in>set (fst (update http up base ident data)).
                \<exists>k. upload_index ev = Some k \<and> k < i))"
proof -
  from processStep_invalid [OF code invalid, of up i] obtain reason where
    at: "processStep up (0 + i) (steps ! i) = ([], Inl (stepError i reason))"
    by auto
  note fa = fail_at [OF idx at]
  from fa obtain e where failed: "snd (processSteps up steps) = Inl e"
    by (auto simp: processSteps_def)
  from fa have early: "\<forall>ev\<in>set (fst (processSteps up steps)). \<exists>k. upload_index ev = Some k \<and> k < i"
    by (simp add: processSteps_def)
  from fa have named: "(\<forall>k<i. \<exists>s'. snd (processStep up k (steps ! k)) = Inr s') \<longrightarrow>
          (\<exists>reason. snd (processSteps up steps) =
             Inl (ThrownNeurana (ValidationError
                    (JStr (''Step '' @ show_nat (i + 1) @ '': '' @ reason)) None)))"
    by (auto simp: processSteps_def stepError_def)
  from idx have nonempty: "steps \<noteq> []"
    by auto
  have calls: "wf_steps data = Some steps \<longrightarrow>
          (\<exists>e. snd (create http up base data) = Inl e)
          \<and> (\<forall>ev\<in>set (fst (create http up base data)). \<exists>k. upload_index ev = Some k \<and> k < i)
          \<and> (\<exists>e. snd (update http up base ident data) = Inl e)
          \<and> (\<forall>ev\<in>set (fst (update http up base ident data)).
                \<exists>k. upload_index ev = Some k \<and> k < i)"
  proof
    assume st: "wf_steps data = Some steps"
    have c1: "\<exists>e. snd (create http up base data) = Inl e"
      using st nonempty failed by (simp add: create_def)
    have c2: "\<forall>ev\<in>set (fst (create http up base data)). \<exists>k. upload_index ev = Some k \<and> k < i"
      using st nonempty failed early by (simp add: create_def)
    have u1: "\<exists>e. snd (update http up base ident data) = Inl e"
      using st nonempty failed by (simp add: update_def split: option.splits)
    have u2: "\<forall>ev\<in>set (fst (update http up base ident data)).
                \<exists>k. upload_index ev = Some k \<and> k < i"
      using st nonempty failed early by (simp add: update_def split: option.splits)
    from c1 c2 u1 u2 show "(\<exists>e. snd (create http up base data) = Inl e)
          \<and> (\<forall>ev\<in>set (fst (create http up base data)). \<exists>k. upload_index ev = Some k \<and> k < i)
          \<and> (\<exists>e. snd (update http up base ident data) = Inl e)
          \<and> (\<forall>ev\<in>set (fst (update http up base ident data)).
                \<exists>k. upload_index ev = Some k \<and> k < i)"
      by (intro conjI)
  qed
  from failed early named calls show ?thesis
    by (intro conjI) blast+
qed

theorem invalid_code_step_fails_fast_witness:
  "0 < length [code_step [(''code'', JStr ''print(1)'')],
               code_step [(''runtime'', JStr ''node''), (''code'', JStr ''run()'')]]
   \<and> step_type ([code_step [(''code'', JStr ''print(1)'')],
               code_step [(''runtime'', JStr ''node''), (''code'', JStr ''run()'')]] ! 0) = ''code''
   \<and> map_of (step_config ([code_step [(''code'', JStr ''print(1)'')],
               code_step [(''runtime'', JStr ''node''), (''code'', JStr ''run()'')]] ! 0))
        ''runtime'' = None
   \<and> processSteps sample_uploader
        [code_step [(''code'', JStr ''print(1)'')],
         code_step [(''runtime'', JStr ''node''), (''code'', JStr ''run()'')]]
      = ([], Inl (ThrownNeurana (ValidationError
                (JStr ''Step 1: runtime is required for code steps (python or node)'') None)))
   \<and> fst (create sample_http sample_uploader None (named_request
        [code_step [(''code'', JStr ''print(1)'')],
         code_step [(''runtime'', JStr ''node''), (''code'', JStr ''run()'')]])) = []"
  using invalid_code_step_fails_fast [where i = 0 and up = sample_uploader
      and steps = "[code_step [(''code'', JStr ''print(1)'')],
                    code_step [(''runtime'', JStr ''node''), (''code'', JStr ''run()'')]]"
      and http = sample_http and base = None and ident = "''wf1''"
      and data = "named_request [code_step [(''code'', JStr ''print(1)'')],
                    code_step [(''runtime'', JStr ''node''), (''code'', JStr ''run()'')]]"]
  by (simp add: code_step_def named_request_def processSteps_def processStep_def stepError_def
      show_nat.simps digitChar_def Let_def)

section \<open>Properties of client construction\<close>

lemma endpoint_security_check:
  "validateEndpointSecurity (Some u) a =
     (if u = [] \<or> startsWith u ''https://'' \<or> str_includes u ''localhost''
         \<or> str_includes u ''127.0.0.1'' then ([], None)
      else if a = Some True then
        ([Warn ''Using insecure HTTP connection'' (takeWhile (\<lambda>c. c \<noteq> CHR ''?'') u)], None)
      else ([], Some (ConfigurationError
                        (JStr ''HTTPS is required for non-localhost endpoints''))))"
  by (simp add: validateEndpointSecurity_def Let_def)

lemmas config_defs =
  validateConfig_def sample_validation_def config_with_base_def trim_def isWhiteSpace_def
  validateEndpointSecurity_def Let_def

text \<open>
  C9. The check for a local endpoint looks for the text \<open>localhost\<close> or \<open>127.0.0.1\<close>
  anywhere in the URL. A plain-HTTP URL whose host is \<open>evil.example.com\<close> and whose path
  is \<open>/localhost\<close> passes it: construction succeeds without the override and without a
  warning. The same host without that path is rejected, and with the override it is
  accepted with a warning.
\<close>

theorem non_loopback_http_accepted:
  "validateEndpointSecurity (Some ''http://evil.example.com/localhost'') None = ([], None)
   \<and> validateConfig sample_validation
        (config_with_base ''http://evil.example.com/localhost'' None) = ([], None)
   \<and> validateConfig sample_validation (config_with_base ''http://evil.example.com'' None)
       = ([], Some (ConfigurationError
                      (JStr ''HTTPS is required for non-localhost endpoints'')))
   \<and> validateConfig sample_validation
        (config_with_base ''http://evil.example.com'' (Some True))
       = ([Warn ''Using insecure HTTP connection'' ''http://evil.example.com''], None)"
  by (simp add: config_defs)

end
